theory Spec2Isabelle
  imports Main "HOL-Library.Word" "HOL-Library.Sublist"
begin

section \<open>JavaScript strings\<close>

text \<open>
  A JavaScript string is a sequence of 16-bit UTF-16 code units; \<open>startsWith\<close>,
  \<open>trim\<close>, concatenation and truthiness all work on code units. Every character of
  the string literals of the two source files lies in the Basic Multilingual Plane, so
  each character is one code unit.
\<close>

type_synonym code_unit = "16 word"
type_synonym jsstring = "code_unit list"

text \<open>
  \<open>String.prototype.startsWith(searchString)\<close> with the default position 0: false
  when the search string is longer than the string, otherwise the comparison of the
  leading code units.
\<close>

definition startsWith :: "jsstring \<Rightarrow> jsstring \<Rightarrow> bool" where
  "startsWith s searchString = (take (length searchString) s = searchString)"

text \<open>
  \<open>String.prototype.trim\<close> strips the ECMAScript WhiteSpace and LineTerminator code
  points from both ends: TAB, LF, VT, FF, CR, SP, NBSP, U+1680, U+2000 to U+200A,
  U+2028, U+2029, U+202F, U+205F, U+3000 and U+FEFF.
\<close>

definition isWhiteSpace :: "code_unit \<Rightarrow> bool" where
  "isWhiteSpace c =
     (c = 0x0009 \<or> c = 0x000A \<or> c = 0x000B \<or> c = 0x000C \<or> c = 0x000D \<or> c = 0x0020
      \<or> c = 0x00A0 \<or> c = 0x1680 \<or> (0x2000 \<le> c \<and> c \<le> 0x200A)
      \<or> c = 0x2028 \<or> c = 0x2029 \<or> c = 0x202F \<or> c = 0x205F \<or> c = 0x3000 \<or> c = 0xFEFF)"

definition trimStart :: "jsstring \<Rightarrow> jsstring" where
  "trimStart s = dropWhile isWhiteSpace s"

definition trimEnd :: "jsstring \<Rightarrow> jsstring" where
  "trimEnd s = rev (dropWhile isWhiteSpace (rev s))"

definition trim :: "jsstring \<Rightarrow> jsstring" where
  "trim s = trimEnd (trimStart s)"

text \<open>Truthiness of a string, and of a \<open>string | null\<close> (or \<open>string | undefined\<close>).\<close>

definition truthy :: "jsstring \<Rightarrow> bool" where
  "truthy s = (s \<noteq> [])"

definition truthy_opt :: "jsstring option \<Rightarrow> bool" where
  "truthy_opt v = (case v of None \<Rightarrow> False | Some s \<Rightarrow> truthy s)"

section \<open>Thrown values and promises\<close>

text \<open>
  What a \<open>catch\<close> clause can receive, as far as the two handlers of the source look
  at it: both test \<open>instanceof Error\<close> and read \<open>message\<close> only in that case.
\<close>

datatype js_value =
    ErrorInstance jsstring
  | StringValue jsstring
  | OtherValue

datatype 'a promise = Resolved 'a | Rejected js_value

section \<open>The string literals of the source\<close>

text \<open>\<open>App.tsx\<close> line 115, first literal: "API", a Korean phrase and a colon.\<close>

definition API_ERROR_PREFIX :: jsstring where
  "API_ERROR_PREFIX =
     [0x0041, 0x0050, 0x0049, 0x0020, 0xD638, 0xCD9C, 0x0020, 0xC911, 0x0020, 0xC624,
      0xB958, 0xAC00, 0x0020, 0xBC1C, 0xC0DD, 0xD588, 0xC2B5, 0xB2C8, 0xB2E4, 0x003A]"

text \<open>\<open>App.tsx\<close> line 115, second literal.\<close>

definition UNKNOWN_ERROR_PREFIX :: jsstring where
  "UNKNOWN_ERROR_PREFIX =
     [0xC54C, 0x0020, 0xC218, 0x0020, 0xC5C6, 0xB294, 0x0020, 0xC624, 0xB958, 0xAC00,
      0x0020, 0xBC1C, 0xC0DD, 0xD558, 0xC5EC]"

text \<open>\<open>App.tsx\<close> line 121: the fallback of the Controller's \<open>catch\<close>.\<close>

definition GENERIC_FALLBACK :: jsstring where
  "GENERIC_FALLBACK =
     [0xC54C, 0x0020, 0xC218, 0x0020, 0xC5C6, 0xB294, 0x0020, 0xC624, 0xB958, 0xAC00,
      0x0020, 0xBC1C, 0xC0DD, 0xD588, 0xC2B5, 0xB2C8, 0xB2E4, 0x002E]"

text \<open>
  \<open>geminiService.ts\<close> line 35: the text of the template literal before
  \<open>${error.message}\<close>; it is the first literal of line 115 followed by a space.
\<close>

definition API_ERROR_TEMPLATE :: jsstring where
  "API_ERROR_TEMPLATE =
     [0x0041, 0x0050, 0x0049, 0x0020, 0xD638, 0xCD9C, 0x0020, 0xC911, 0x0020, 0xC624,
      0xB958, 0xAC00, 0x0020, 0xBC1C, 0xC0DD, 0xD588, 0xC2B5, 0xB2C8, 0xB2E4, 0x003A,
      0x0020]"

text \<open>\<open>geminiService.ts\<close> line 37.\<close>

definition UNKNOWN_ERROR_MESSAGE :: jsstring where
  "UNKNOWN_ERROR_MESSAGE =
     [0xC54C, 0x0020, 0xC218, 0x0020, 0xC5C6, 0xB294, 0x0020, 0xC624, 0xB958, 0xAC00,
      0x0020, 0xBC1C, 0xC0DD, 0xD558, 0xC5EC, 0x0020, 0xC815, 0xC758, 0xB97C, 0x0020,
      0xAC00, 0xC838, 0xC62C, 0x0020, 0xC218, 0x0020, 0xC5C6, 0xC2B5, 0xB2C8, 0xB2E4,
      0x002E]"

text \<open>\<open>geminiService.ts\<close> line 16: the value the promise is rejected with.\<close>

definition API_KEY_MISSING_MESSAGE :: jsstring where
  "API_KEY_MISSING_MESSAGE =
     [0x0041, 0x0050, 0x0049, 0x0020, 0xD0A4, 0xAC00, 0x0020, 0xC124, 0xC815, 0xB418,
      0xC9C0, 0x0020, 0xC54A, 0xC558, 0xC2B5, 0xB2C8, 0xB2E4, 0x002E, 0x0020, 0xC560,
      0xD50C, 0xB9AC, 0xCF00, 0xC774, 0xC158, 0x0020, 0xC124, 0xC815, 0xC744, 0x0020,
      0xD655, 0xC778, 0xD574, 0xC8FC, 0xC138, 0xC694, 0x002E]"

text \<open>\<open>geminiService.ts\<close> line 20: the system instruction.\<close>

definition systemInstruction :: jsstring where
  "systemInstruction =
     [0xB2F9, 0xC2E0, 0xC740, 0x0020, 0xAE08, 0xC735, 0x0020, 0xC6A9, 0xC5B4, 0x0020,
      0xC804, 0xBB38, 0xAC00, 0xC785, 0xB2C8, 0xB2E4, 0x002E, 0x0020, 0xC0AC, 0xC6A9,
      0xC790, 0xAC00, 0x0020, 0xC785, 0xB825, 0xD55C, 0x0020, 0xAE08, 0xC735, 0x0020,
      0xC6A9, 0xC5B4, 0xC5D0, 0x0020, 0xB300, 0xD574, 0x0020, 0xD55C, 0xAD6D, 0xC5B4,
      0xB85C, 0x0020, 0xBA85, 0xD655, 0xD558, 0xACE0, 0x0020, 0xC774, 0xD574, 0xD558,
      0xAE30, 0x0020, 0xC27D, 0xAC8C, 0x0020, 0xC124, 0xBA85, 0xD574, 0xC57C, 0x0020,
      0xD569, 0xB2C8, 0xB2E4, 0x002E, 0x0020, 0xAE08, 0xC735, 0xC744, 0x0020, 0xCC98,
      0xC74C, 0x0020, 0xC811, 0xD558, 0xB294, 0x0020, 0xC0AC, 0xB78C, 0xB3C4, 0x0020,
      0xC774, 0xD574, 0xD560, 0x0020, 0xC218, 0x0020, 0xC788, 0xB3C4, 0xB85D, 0x0020,
      0xCE5C, 0xC808, 0xD558, 0xAC8C, 0x0020, 0xC124, 0xBA85, 0xD574, 0xC8FC, 0xC138,
      0xC694, 0x002E, 0x0020, 0xB2F5, 0xBCC0, 0xC740, 0x0020, 0xB9C8, 0xD06C, 0xB2E4,
      0xC6B4, 0x0020, 0xD615, 0xC2DD, 0xC744, 0x0020, 0xC0AC, 0xC6A9, 0xD558, 0xC5EC,
      0x0020, 0xAC00, 0xB3C5, 0xC131, 0xC744, 0x0020, 0xB192, 0xC5EC, 0xC8FC, 0xC138,
      0xC694, 0x0020, 0x0028, 0xC608, 0x003A, 0x0020, 0xAE00, 0xBA38, 0xB9AC, 0x0020,
      0xAE30, 0xD638, 0x002C, 0x0020, 0x002A, 0x002A, 0xAD75, 0xC740, 0x0020, 0xAE00,
      0xC528, 0x002A, 0x002A, 0x0029, 0x002E, 0x0020, 0xB2F5, 0xBCC0, 0xC740, 0x0020,
      0xBC18, 0xB4DC, 0xC2DC, 0x0020, 0x0035, 0x0030, 0x0030, 0xC790, 0x0020, 0xC774,
      0xB0B4, 0xB85C, 0x0020, 0xC694, 0xC57D, 0xD574, 0xC8FC, 0xC138, 0xC694, 0x002E]"

section \<open>The Definition Provider (\<open>services/geminiService.ts\<close>)\<close>

text \<open>
  The argument of \<open>ai.models.generateContent\<close>. The temperature 0.5 is kept as the
  fraction 5 / 10.
\<close>

record request =
  model :: string
  contents :: jsstring
  config_systemInstruction :: jsstring
  config_temperature_num :: nat
  config_temperature_den :: nat

text \<open>
  The SDK call is outside the repository: it either returns a response, of which the
  code reads \<open>text\<close> (a string, by the return type \<open>Promise<string>\<close> of the
  Provider), or throws. The Provider takes it as a parameter.
\<close>

datatype sdk_outcome = Returns jsstring | Throws js_value

text \<open>The object literal of lines 22 to 29, for the term given.\<close>

definition generateContent_request :: "jsstring \<Rightarrow> request" where
  "generateContent_request term =
     \<lparr>model = ''gemini-2.5-flash'', contents = term,
      config_systemInstruction = systemInstruction,
      config_temperature_num = 5, config_temperature_den = 10\<rparr>"

text \<open>What the Provider does besides settling its promise.\<close>

datatype effect =
    GenerateContent request
  | ConsoleError js_value

text \<open>
  Lines 3 to 12 run once when the module is loaded: they read the key, log to the
  console when it is missing, and construct the client; no request is sent there.

  \<open>getFinancialTermDefinition\<close>, lines 14 to 39. \<open>API_KEY\<close> is
  \<open>process.env.API_KEY\<close>, a string or \<open>undefined\<close>; \<open>!API_KEY\<close> holds for
  \<open>undefined\<close> and for the empty string. The result is the settled promise and the
  effects in the order they happen.
\<close>

definition getFinancialTermDefinition ::
  "jsstring option \<Rightarrow> (request \<Rightarrow> sdk_outcome) \<Rightarrow> jsstring \<Rightarrow> jsstring promise \<times> effect list" where
  "getFinancialTermDefinition API_KEY generateContent term =
     (if \<not> truthy_opt API_KEY then (Rejected (StringValue API_KEY_MISSING_MESSAGE), [])
      else
        let req = generateContent_request term
        in case generateContent req of
             Returns text \<Rightarrow> (Resolved text, [GenerateContent req])
           | Throws err \<Rightarrow>
               (case err of
                  ErrorInstance message \<Rightarrow>
                    (Resolved (API_ERROR_TEMPLATE @ message), [GenerateContent req, ConsoleError err])
                | _ \<Rightarrow> (Resolved UNKNOWN_ERROR_MESSAGE, [GenerateContent req, ConsoleError err])))"

section \<open>The Search UI Controller (\<open>App.tsx\<close>)\<close>

text \<open>The four \<open>useState\<close> cells of \<open>App\<close>, lines 101 to 104.\<close>

record app_state =
  searchedTerm :: "jsstring option"
  definition' :: "jsstring option"
  isLoading :: bool
  error :: "jsstring option"

definition initial_state :: app_state where
  "initial_state = \<lparr>searchedTerm = None, definition' = None, isLoading = False, error = None\<rparr>"

text \<open>\<open>handleSearch\<close>, lines 107 to 110: the part that runs before the \<open>await\<close>.\<close>

definition handleSearch_start :: "jsstring \<Rightarrow> app_state \<Rightarrow> app_state" where
  "handleSearch_start term s =
     s\<lparr>isLoading := True, error := None, definition' := None, searchedTerm := Some term\<rparr>"

text \<open>
  \<open>handleSearch\<close>, lines 112 to 125: the part that runs once the awaited promise has
  settled, the \<open>try\<close> body for a resolved promise, the \<open>catch\<close> clause for a rejected
  one, and \<open>finally\<close> after either.
\<close>

definition handleSearch_settle :: "jsstring promise \<Rightarrow> app_state \<Rightarrow> app_state" where
  "handleSearch_settle outcome s =
     (let s' =
        (case outcome of
           Resolved result \<Rightarrow>
             if startsWith result API_ERROR_PREFIX \<or> startsWith result UNKNOWN_ERROR_PREFIX
             then s\<lparr>error := Some result\<rparr>
             else s\<lparr>definition' := Some result\<rparr>
         | Rejected e \<Rightarrow>
             let errorMessage = (case e of ErrorInstance message \<Rightarrow> message | _ \<Rightarrow> GENERIC_FALLBACK)
             in s\<lparr>error := Some errorMessage\<rparr>)
      in s'\<lparr>isLoading := False\<rparr>)"

text \<open>
  \<open>handleSearch\<close> run from its call to its end with no other event in between; the
  Provider is the function it awaits.
\<close>

definition handleSearch :: "(jsstring \<Rightarrow> jsstring promise) \<Rightarrow> jsstring \<Rightarrow> app_state \<Rightarrow> app_state" where
  "handleSearch provider term s = handleSearch_settle (provider term) (handleSearch_start term s)"

text \<open>
  \<open>renderContent\<close>, lines 128 to 139: the component it returns, with its props.
  The tests are truthiness tests, so \<open>null\<close> and the empty string both fail them;
  \<open>the\<close> is applied only under a test that has passed, where the cell holds a string.
\<close>

datatype view =
    LoadingIndicator
  | ErrorDisplay jsstring
  | ResultDisplay jsstring jsstring
  | InitialState

definition renderContent :: "app_state \<Rightarrow> view" where
  "renderContent s =
     (if isLoading s then LoadingIndicator
      else if truthy_opt (error s) then ErrorDisplay (the (error s))
      else if truthy_opt (definition' s) \<and> truthy_opt (searchedTerm s)
        then ResultDisplay (the (searchedTerm s)) (the (definition' s))
      else InitialState)"

text \<open>
  \<open>SearchForm.handleSubmit\<close>, lines 25 to 29: the argument of the \<open>onSubmit\<close> call, or
  \<open>None\<close> when the handler returns without calling it. \<open>term\<close> is the text of the
  input box and \<open>isLoading\<close> the prop.
\<close>

definition handleSubmit :: "jsstring \<Rightarrow> bool \<Rightarrow> jsstring option" where
  "handleSubmit term isLoadingProp =
     (if \<not> truthy (trim term) \<or> isLoadingProp then None else Some (trim term))"

section \<open>The Controller as an event-driven machine\<close>

text \<open>
  Execution is single-threaded: a submit event runs \<open>handleSubmit\<close> and, through
  \<open>onSubmit\<close>, \<open>handleSearch\<close> up to its \<open>await\<close>; later, the settling of an awaited
  promise runs the rest of that \<open>handleSearch\<close> call. The setters only schedule an
  update: \<open>SearchForm\<close> tests the \<open>isLoading\<close> prop it was given at the last render
  of \<open>App\<close> (lines 22 to 28 and 168), which is the state cell as it was then, and it
  gets the current cell at the next render only. A configuration is the state of
  \<open>App\<close>, the terms of the Provider calls that were made and have not settled yet, and
  the \<open>isLoading\<close> prop the form holds.
\<close>

record config =
  app :: app_state
  pending :: "jsstring list"
  form_isLoading :: bool

definition initial_config :: config where
  "initial_config = \<lparr>app = initial_state, pending = [], form_isLoading = False\<rparr>"

datatype event =
    Submit jsstring
  | Settle nat "jsstring promise"
  | Render

fun step :: "event \<Rightarrow> config \<Rightarrow> config" where
  "step (Submit input) c =
     (case handleSubmit input (form_isLoading c) of
        None \<Rightarrow> c
      | Some term \<Rightarrow>
          c\<lparr>app := handleSearch_start term (app c), pending := pending c @ [term]\<rparr>)"
| "step (Settle i outcome) c =
     (if i < length (pending c)
      then c\<lparr>app := handleSearch_settle outcome (app c),
             pending := take i (pending c) @ drop (Suc i) (pending c)\<rparr>
      else c)"
| "step Render c = c\<lparr>form_isLoading := isLoading (app c)\<rparr>"

fun run :: "event list \<Rightarrow> config \<Rightarrow> config" where
  "run [] c = c"
| "run (e # es) c = run es (step e c)"

text \<open>
  The form is up to date when its prop is set whenever the state is loading, as it is
  after a render. A sequence of events keeps the form up to date when this is so at
  each of its submit events.
\<close>

definition form_up_to_date :: "config \<Rightarrow> bool" where
  "form_up_to_date c = (form_isLoading c \<or> \<not> isLoading (app c))"

fun submits_up_to_date :: "event list \<Rightarrow> config \<Rightarrow> bool" where
  "submits_up_to_date [] c = True"
| "submits_up_to_date (Submit input # es) c =
     (form_up_to_date c \<and> submits_up_to_date es (step (Submit input) c))"
| "submits_up_to_date (Settle i outcome # es) c =
     submits_up_to_date es (step (Settle i outcome) c)"
| "submits_up_to_date (Render # es) c = submits_up_to_date es (step Render c)"

text \<open>
  What holds of a configuration as long as calls do not overlap: loading is on exactly
  while a call is pending, at most one call is pending, and nothing is held while
  loading.
\<close>

definition consistent :: "config \<Rightarrow> bool" where
  "consistent c =
     ((isLoading (app c) = (pending c \<noteq> []))
      \<and> length (pending c) \<le> 1
      \<and> (if isLoading (app c) then error (app c) = None \<and> definition' (app c) = None
         else error (app c) = None \<or> definition' (app c) = None))"

section \<open>Facts about the string operations\<close>

lemma startsWith_prefix: "startsWith s p = prefix p s"
  unfolding startsWith_def prefix_def
  by (metis append_eq_conv_conj)

lemma dropWhile_all_iff: "(\<forall>x \<in> set (dropWhile P s). P x) \<longleftrightarrow> (\<forall>x \<in> set s. P x)"
proof
  assume a: "\<forall>x \<in> set (dropWhile P s). P x"
  have "dropWhile P s = []"
  proof (rule ccontr)
    assume ne: "dropWhile P s \<noteq> []"
    then have "\<not> P (hd (dropWhile P s))" by (rule hd_dropWhile)
    moreover from ne have "hd (dropWhile P s) \<in> set (dropWhile P s)" by simp
    ultimately show False using a by blast
  qed
  then show "\<forall>x \<in> set s. P x" by simp
next
  assume "\<forall>x \<in> set s. P x"
  then show "\<forall>x \<in> set (dropWhile P s). P x" by (auto dest: set_dropWhileD)
qed

text \<open>The trimmed form is empty exactly for the empty and the whitespace-only strings.\<close>

lemma trim_empty_iff: "trim s = [] \<longleftrightarrow> (\<forall>c \<in> set s. isWhiteSpace c)"
  by (simp add: trim_def trimStart_def trimEnd_def dropWhile_all_iff)

lemma handleSubmit_Some_iff:
  "handleSubmit input l = Some t \<longleftrightarrow> (trim input \<noteq> [] \<and> \<not> l \<and> t = trim input)"
  by (auto simp: handleSubmit_def truthy_def)

lemma handleSubmit_None_iff:
  "handleSubmit input l = None \<longleftrightarrow> (trim input = [] \<or> l)"
  by (auto simp: handleSubmit_def truthy_def)

lemma error_prefix_nonempty:
  "startsWith r API_ERROR_PREFIX \<or> startsWith r UNKNOWN_ERROR_PREFIX \<Longrightarrow> r \<noteq> []"
  by (auto simp: startsWith_def API_ERROR_PREFIX_def UNKNOWN_ERROR_PREFIX_def)

text \<open>Both strings the Provider builds in its \<open>catch\<close> clause match line 115.\<close>

lemma template_matches_prefix: "startsWith (API_ERROR_TEMPLATE @ m) API_ERROR_PREFIX"
  by (simp add: startsWith_def API_ERROR_TEMPLATE_def API_ERROR_PREFIX_def)

lemma unknown_matches_prefix: "startsWith UNKNOWN_ERROR_MESSAGE UNKNOWN_ERROR_PREFIX"
  by (simp add: startsWith_def UNKNOWN_ERROR_MESSAGE_def UNKNOWN_ERROR_PREFIX_def)

section \<open>One run of \<open>handleSearch\<close>\<close>

lemma settle_resolved_error:
  "startsWith r API_ERROR_PREFIX \<or> startsWith r UNKNOWN_ERROR_PREFIX \<Longrightarrow>
   handleSearch_settle (Resolved r) s = s\<lparr>error := Some r, isLoading := False\<rparr>"
  by (simp add: handleSearch_settle_def)

lemma settle_resolved_definition:
  "\<not> startsWith r API_ERROR_PREFIX \<Longrightarrow> \<not> startsWith r UNKNOWN_ERROR_PREFIX \<Longrightarrow>
   handleSearch_settle (Resolved r) s = s\<lparr>definition' := Some r, isLoading := False\<rparr>"
  by (simp add: handleSearch_settle_def)

lemma settle_rejected:
  "handleSearch_settle (Rejected e) s =
     s\<lparr>error := Some (case e of ErrorInstance message \<Rightarrow> message | _ \<Rightarrow> GENERIC_FALLBACK),
       isLoading := False\<rparr>"
  by (simp add: handleSearch_settle_def)

lemma start_eq:
  "handleSearch_start term s =
     \<lparr>searchedTerm = Some term, definition' = None, isLoading = True, error = None\<rparr>"
  by (simp add: handleSearch_start_def)

lemma provider_returns:
  "truthy_opt key \<Longrightarrow>
   getFinancialTermDefinition key (\<lambda>_. Returns r) t
     = (Resolved r, [GenerateContent (generateContent_request t)])"
  by (simp add: getFinancialTermDefinition_def)

lemma provider_missing_key:
  "\<not> truthy_opt key \<Longrightarrow>
   getFinancialTermDefinition key generateContent t
     = (Rejected (StringValue API_KEY_MISSING_MESSAGE), [])"
  by (simp add: getFinancialTermDefinition_def)

text \<open>
  Claim C1. Whenever the Provider resolves with a string that starts with one of the two
  literals of line 115, \<open>handleSearch\<close> ends with loading off, no definition and that
  very string as the error, and \<open>renderContent\<close> shows it in the error panel. This
  includes text that the remote service returned as a definition: the Provider hands
  it on unchanged and the Controller still shows it as an error.
\<close>

theorem resolved_error_prefix_ends_in_error:
  assumes "startsWith r API_ERROR_PREFIX \<or> startsWith r UNKNOWN_ERROR_PREFIX"
  shows "handleSearch (\<lambda>_. Resolved r) term s
           = \<lparr>searchedTerm = Some term, definition' = None, isLoading = False, error = Some r\<rparr>
         \<and> renderContent (handleSearch (\<lambda>_. Resolved r) term s) = ErrorDisplay r
         \<and> (truthy_opt key \<longrightarrow>
              renderContent
                (handleSearch (\<lambda>t. fst (getFinancialTermDefinition key (\<lambda>_. Returns r) t)) term s)
              = ErrorDisplay r)"
proof -
  from assms have ne: "r \<noteq> []" by (rule error_prefix_nonempty)
  have st: "handleSearch (\<lambda>_. Resolved r) term s
              = \<lparr>searchedTerm = Some term, definition' = None, isLoading = False, error = Some r\<rparr>"
    using assms by (simp add: handleSearch_def settle_resolved_error start_eq)
  have rc: "renderContent (handleSearch (\<lambda>_. Resolved r) term s) = ErrorDisplay r"
    using ne by (simp add: st renderContent_def truthy_opt_def truthy_def)
  have "renderContent
          (handleSearch (\<lambda>t. fst (getFinancialTermDefinition key (\<lambda>_. Returns r) t)) term s)
        = ErrorDisplay r" if "truthy_opt key"
    using that rc by (simp add: provider_returns)
  with st rc show ?thesis by blast
qed

text \<open>
  The witness: the service returns the text "API ...: x" (the first literal followed by
  a space and a letter) for the term "ESG", with a key configured.
\<close>

theorem resolved_error_prefix_ends_in_error_witness:
  "(startsWith (API_ERROR_PREFIX @ [0x0020, 0x0078]) API_ERROR_PREFIX
      \<or> startsWith (API_ERROR_PREFIX @ [0x0020, 0x0078]) UNKNOWN_ERROR_PREFIX)
   \<and> truthy_opt (Some [0x006B])
   \<and> renderContent (handleSearch (\<lambda>_. Resolved (API_ERROR_PREFIX @ [0x0020, 0x0078]))
        [0x0045, 0x0053, 0x0047] initial_state)
       = ErrorDisplay (API_ERROR_PREFIX @ [0x0020, 0x0078])
   \<and> renderContent
        (handleSearch
           (\<lambda>t. fst (getFinancialTermDefinition (Some [0x006B])
                        (\<lambda>_. Returns (API_ERROR_PREFIX @ [0x0020, 0x0078])) t))
           [0x0045, 0x0053, 0x0047] initial_state)
       = ErrorDisplay (API_ERROR_PREFIX @ [0x0020, 0x0078])"
proof -
  have h: "startsWith (API_ERROR_PREFIX @ [0x0020, 0x0078]) API_ERROR_PREFIX
             \<or> startsWith (API_ERROR_PREFIX @ [0x0020, 0x0078]) UNKNOWN_ERROR_PREFIX"
    by (simp add: startsWith_def)
  have k: "truthy_opt (Some [0x006B])"
    by (simp add: truthy_opt_def truthy_def)
  from resolved_error_prefix_ends_in_error
         [OF h, of "[0x0045, 0x0053, 0x0047]" initial_state "Some [0x006B]"] h k
  show ?thesis by blast
qed

text \<open>
  Claim C2, as amended. Whenever the Provider resolves with a non-empty string that
  starts with neither literal of line 115, a search that the form let through ends with
  loading off, no error, the trimmed input as the searched term and that string as the
  definition, and \<open>renderContent\<close> shows the result panel with that term and that
  string.
\<close>

theorem resolved_nonempty_definition_ends_in_success:
  assumes "\<not> startsWith r API_ERROR_PREFIX" and "\<not> startsWith r UNKNOWN_ERROR_PREFIX"
    and "r \<noteq> []"
    and "handleSubmit input (isLoading s) = Some term"
  shows "handleSearch (\<lambda>_. Resolved r) term s
           = \<lparr>searchedTerm = Some term, definition' = Some r, isLoading = False, error = None\<rparr>
         \<and> term = trim input
         \<and> renderContent (handleSearch (\<lambda>_. Resolved r) term s) = ResultDisplay term r"
proof -
  from assms(4) have t: "term = trim input" and tne: "term \<noteq> []"
    by (simp_all add: handleSubmit_Some_iff)
  have st: "handleSearch (\<lambda>_. Resolved r) term s
              = \<lparr>searchedTerm = Some term, definition' = Some r, isLoading = False, error = None\<rparr>"
    using assms(1,2) by (simp add: handleSearch_def settle_resolved_definition start_eq)
  have "renderContent (handleSearch (\<lambda>_. Resolved r) term s) = ResultDisplay term r"
    using tne assms(3) by (simp add: st renderContent_def truthy_opt_def truthy_def)
  with st t show ?thesis by blast
qed

text \<open>
  The witness: the input " ESG" and the resolved text "**ESG**" from the initial state.
\<close>

theorem resolved_nonempty_definition_ends_in_success_witness:
  "\<not> startsWith [0x002A, 0x002A, 0x0045, 0x0053, 0x0047, 0x002A, 0x002A] API_ERROR_PREFIX
   \<and> \<not> startsWith [0x002A, 0x002A, 0x0045, 0x0053, 0x0047, 0x002A, 0x002A] UNKNOWN_ERROR_PREFIX
   \<and> handleSubmit [0x0020, 0x0045, 0x0053, 0x0047] (isLoading initial_state)
       = Some [0x0045, 0x0053, 0x0047]
   \<and> renderContent
        (handleSearch (\<lambda>_. Resolved [0x002A, 0x002A, 0x0045, 0x0053, 0x0047, 0x002A, 0x002A])
           [0x0045, 0x0053, 0x0047] initial_state)
       = ResultDisplay [0x0045, 0x0053, 0x0047]
           [0x002A, 0x002A, 0x0045, 0x0053, 0x0047, 0x002A, 0x002A]"
proof -
  let ?r = "[0x002A, 0x002A, 0x0045, 0x0053, 0x0047, 0x002A, 0x002A] :: jsstring"
  have a: "\<not> startsWith ?r API_ERROR_PREFIX"
    by (simp add: startsWith_def API_ERROR_PREFIX_def)
  have b: "\<not> startsWith ?r UNKNOWN_ERROR_PREFIX"
    by (simp add: startsWith_def UNKNOWN_ERROR_PREFIX_def)
  have c: "?r \<noteq> []" by simp
  have d: "handleSubmit [0x0020, 0x0045, 0x0053, 0x0047] (isLoading initial_state)
             = Some [0x0045, 0x0053, 0x0047]"
    by (simp add: handleSubmit_def truthy_def trim_def trimStart_def trimEnd_def
          isWhiteSpace_def initial_state_def)
  from resolved_nonempty_definition_ends_in_success [OF a b c d] a b d
  show ?thesis by blast
qed

text \<open>
  The claim as first stated, for every string matching neither literal, fails at the
  empty string: the search for "ESG" from the initial state, resolved with the empty
  string, does not end in the result panel.
\<close>

theorem resolved_empty_string_counterexample:
  "\<not> startsWith [] API_ERROR_PREFIX \<and> \<not> startsWith [] UNKNOWN_ERROR_PREFIX
   \<and> renderContent
        (app (run [Submit [0x0045, 0x0053, 0x0047], Settle 0 (Resolved [])] initial_config))
       \<noteq> ResultDisplay [0x0045, 0x0053, 0x0047] []"
  by (simp add: startsWith_def API_ERROR_PREFIX_def UNKNOWN_ERROR_PREFIX_def
        handleSubmit_def truthy_def trim_def trimStart_def trimEnd_def isWhiteSpace_def
        initial_config_def initial_state_def handleSearch_start_def handleSearch_settle_def
        renderContent_def truthy_opt_def)

text \<open>
  Claim C3. With a key configured, whenever the SDK call throws, the Provider's promise
  is resolved, never rejected: with the template of line 35 followed by the message
  when the thrown value is an \<open>Error\<close>, and with the fixed string of line 37 otherwise.
\<close>

theorem caught_failure_resolves_with_encoded_string:
  assumes "truthy_opt key"
    and "generateContent (generateContent_request term) = Throws err"
  shows "fst (getFinancialTermDefinition key generateContent term)
           = Resolved (case err of ErrorInstance message \<Rightarrow> API_ERROR_TEMPLATE @ message
                                | _ \<Rightarrow> UNKNOWN_ERROR_MESSAGE)
         \<and> (\<forall>v. fst (getFinancialTermDefinition key generateContent term) \<noteq> Rejected v)"
  using assms by (simp add: getFinancialTermDefinition_def split: js_value.splits)

text \<open>
  The witness: the key "k", the term "ESG", and an SDK call that throws an \<open>Error\<close>
  with the message "quota".
\<close>

theorem caught_failure_resolves_with_encoded_string_witness:
  "truthy_opt (Some [0x006B])
   \<and> (\<lambda>_. Throws (ErrorInstance [0x0071, 0x0075, 0x006F, 0x0074, 0x0061]))
        (generateContent_request [0x0045, 0x0053, 0x0047])
       = Throws (ErrorInstance [0x0071, 0x0075, 0x006F, 0x0074, 0x0061])
   \<and> fst (getFinancialTermDefinition (Some [0x006B])
            (\<lambda>_. Throws (ErrorInstance [0x0071, 0x0075, 0x006F, 0x0074, 0x0061]))
            [0x0045, 0x0053, 0x0047])
       = Resolved (API_ERROR_TEMPLATE @ [0x0071, 0x0075, 0x006F, 0x0074, 0x0061])"
proof -
  let ?e = "ErrorInstance [0x0071, 0x0075, 0x006F, 0x0074, 0x0061]"
  have k: "truthy_opt (Some [0x006B])"
    by (simp add: truthy_opt_def truthy_def)
  have g: "(\<lambda>_. Throws ?e) (generateContent_request [0x0045, 0x0053, 0x0047]) = Throws ?e"
    by simp
  from caught_failure_resolves_with_encoded_string [OF k g] k
  show ?thesis by simp
qed

text \<open>
  Claim C4. When \<open>API_KEY\<close> is \<open>undefined\<close> (or the empty string, which \<open>!API_KEY\<close>
  treats alike), every call of the Provider, whatever the term and whatever the SDK
  would do, rejects with the fixed string of line 16 and has no effect: the SDK is not
  called.
\<close>

theorem missing_key_rejects_without_call:
  assumes "\<not> truthy_opt key"
  shows "getFinancialTermDefinition key generateContent term
           = (Rejected (StringValue API_KEY_MISSING_MESSAGE), [])"
  using assms by (rule provider_missing_key)

theorem missing_key_rejects_without_call_witness:
  "\<not> truthy_opt None
   \<and> getFinancialTermDefinition None (\<lambda>_. Returns [0x0078]) [0x0045, 0x0053, 0x0047]
       = (Rejected (StringValue API_KEY_MISSING_MESSAGE), [])"
proof -
  have h: "\<not> truthy_opt None" by (simp add: truthy_opt_def)
  from missing_key_rejects_without_call [OF h] h show ?thesis by blast
qed

text \<open>
  Claim C5 does not hold of the code. The Provider rejects with a plain string, the
  \<open>catch\<close> clause of \<open>handleSearch\<close> reads a message only from an \<open>Error\<close>, and so
  the panel shows the fallback of line 121, which is a different string from the one of
  line 16 of the Provider.
\<close>

theorem missing_key_displays_generic_fallback:
  "handleSearch (\<lambda>t. fst (getFinancialTermDefinition None generateContent t)) term s
     = \<lparr>searchedTerm = Some term, definition' = None, isLoading = False,
        error = Some GENERIC_FALLBACK\<rparr>
   \<and> renderContent
       (handleSearch (\<lambda>t. fst (getFinancialTermDefinition None generateContent t)) term s)
     = ErrorDisplay GENERIC_FALLBACK
   \<and> GENERIC_FALLBACK \<noteq> API_KEY_MISSING_MESSAGE"
proof -
  have p: "(\<lambda>t. fst (getFinancialTermDefinition None generateContent t))
             = (\<lambda>_. Rejected (StringValue API_KEY_MISSING_MESSAGE))"
    by (simp add: provider_missing_key truthy_opt_def)
  have st: "handleSearch (\<lambda>_. Rejected (StringValue API_KEY_MISSING_MESSAGE)) term s
              = \<lparr>searchedTerm = Some term, definition' = None, isLoading = False,
                 error = Some GENERIC_FALLBACK\<rparr>"
    by (simp add: handleSearch_def settle_rejected start_eq)
  have ne: "GENERIC_FALLBACK \<noteq> []" by (simp add: GENERIC_FALLBACK_def)
  have rc: "renderContent (handleSearch (\<lambda>_. Rejected (StringValue API_KEY_MISSING_MESSAGE)) term s)
              = ErrorDisplay GENERIC_FALLBACK"
    using ne by (simp add: st renderContent_def truthy_opt_def truthy_def)
  have d: "GENERIC_FALLBACK \<noteq> API_KEY_MISSING_MESSAGE"
    by (simp add: GENERIC_FALLBACK_def API_KEY_MISSING_MESSAGE_def)
  from st rc d show ?thesis unfolding p by blast
qed



section \<open>Sequences of events\<close>

lemma run_append: "run (es @ fs) c = run fs (run es c)"
  by (induction es arbitrary: c) simp_all

lemma submits_up_to_date_snoc:
  "submits_up_to_date (es @ [Submit input]) c
     = (submits_up_to_date es c \<and> form_up_to_date (run es c))"
proof (induction es arbitrary: c)
  case Nil
  show ?case by simp
next
  case (Cons e es)
  then show ?case by (cases e) simp_all
qed

text \<open>The three kinds of event on a configuration written out.\<close>

lemma step_Submit_explicit:
  "handleSubmit input f = Some t \<Longrightarrow>
   step (Submit input) \<lparr>app = a, pending = p, form_isLoading = f\<rparr>
     = \<lparr>app = handleSearch_start t a, pending = p @ [t], form_isLoading = f\<rparr>"
  by simp

lemma step_Settle_explicit:
  "i < length p \<Longrightarrow>
   step (Settle i outcome) \<lparr>app = a, pending = p, form_isLoading = f\<rparr>
     = \<lparr>app = handleSearch_settle outcome a, pending = take i p @ drop (Suc i) p,
        form_isLoading = f\<rparr>"
  by simp

lemma step_Render_explicit:
  "step Render \<lparr>app = a, pending = p, form_isLoading = f\<rparr>
     = \<lparr>app = a, pending = p, form_isLoading = isLoading a\<rparr>"
  by simp

lemma consistent_initial: "consistent initial_config"
  by (simp add: consistent_def initial_config_def initial_state_def)

lemma consistent_submit:
  assumes "consistent c" and "form_up_to_date c"
  shows "consistent (step (Submit input) c)"
proof (cases "handleSubmit input (form_isLoading c)")
  case None
  with assms(1) show ?thesis by simp
next
  case (Some t)
  then have "\<not> form_isLoading c" by (simp add: handleSubmit_Some_iff)
  with assms(2) have "\<not> isLoading (app c)" by (simp add: form_up_to_date_def)
  with assms(1) have "pending c = []" by (simp add: consistent_def)
  with Some have "step (Submit input) c
                    = c\<lparr>app := handleSearch_start t (app c), pending := [t]\<rparr>"
    by simp
  then show ?thesis by (simp add: consistent_def handleSearch_start_def)
qed

lemma consistent_settle:
  assumes "consistent c"
  shows "consistent (step (Settle i outcome) c)"
proof (cases "i < length (pending c)")
  case False
  with assms show ?thesis by simp
next
  case True
  with assms have i: "i = 0" and l: "length (pending c) = 1"
    by (auto simp: consistent_def)
  from l have "pending c \<noteq> []" by auto
  with assms have h: "error (app c) = None" "definition' (app c) = None"
    by (auto simp: consistent_def split: if_splits)
  from l have "take i (pending c) @ drop (Suc i) (pending c) = []"
    by (simp add: i)
  with True have "step (Settle i outcome) c
                    = c\<lparr>app := handleSearch_settle outcome (app c), pending := []\<rparr>"
    by simp
  then show ?thesis
    using h by (cases outcome) (simp_all add: consistent_def handleSearch_settle_def)
qed

lemma consistent_render: "consistent c \<Longrightarrow> consistent (step Render c)"
  by (simp add: consistent_def)

lemma consistent_run:
  "consistent c \<Longrightarrow> submits_up_to_date es c \<Longrightarrow> consistent (run es c)"
proof (induction es arbitrary: c)
  case Nil
  then show ?case by simp
next
  case (Cons e es)
  show ?case
  proof (cases e)
    case (Submit input)
    with Cons.prems have f: "form_up_to_date c" and u: "submits_up_to_date es (step e c)"
      by (simp_all del: step.simps)
    from Cons.prems(1) f have "consistent (step e c)"
      unfolding Submit by (rule consistent_submit)
    with u show ?thesis using Cons.IH by simp
  next
    case (Settle i outcome)
    with Cons.prems have "consistent (step e c)" "submits_up_to_date es (step e c)"
      by (simp_all only: consistent_settle submits_up_to_date.simps)
    then show ?thesis using Cons.IH by simp
  next
    case Render
    with Cons.prems have "consistent (step e c)" "submits_up_to_date es (step e c)"
      by (simp_all only: consistent_render submits_up_to_date.simps)
    then show ?thesis using Cons.IH by simp
  qed
qed

lemma reachable_consistent:
  "submits_up_to_date es initial_config \<Longrightarrow> consistent (run es initial_config)"
  by (rule consistent_run [OF consistent_initial])

text \<open>
  Claim C7, as amended. A submit event is a no-op when the trimmed input is empty and
  when the \<open>isLoading\<close> prop of the form is set: \<open>handleSubmit\<close> does not call
  \<open>onSubmit\<close>, so neither the state nor the pending Provider calls change. A submit
  event while a call is pending is such a no-op when the form was up to date at it and
  at every submit event before it.
\<close>

theorem blank_or_form_loading_submit_is_noop:
  "(trim input = [] \<or> form_isLoading c \<longrightarrow>
      handleSubmit input (form_isLoading c) = None \<and> step (Submit input) c = c)
   \<and> (submits_up_to_date (es @ [Submit input]) initial_config
        \<and> pending (run es initial_config) \<noteq> [] \<longrightarrow>
        run (es @ [Submit input]) initial_config = run es initial_config)"
proof -
  have a: "handleSubmit input (form_isLoading c) = None \<and> step (Submit input) c = c"
    if "trim input = [] \<or> form_isLoading c" for c
  proof -
    from that have "handleSubmit input (form_isLoading c) = None"
      by (simp add: handleSubmit_None_iff)
    then show ?thesis by simp
  qed
  have "run (es @ [Submit input]) initial_config = run es initial_config"
    if u: "submits_up_to_date (es @ [Submit input]) initial_config"
      and p: "pending (run es initial_config) \<noteq> []"
  proof -
    from u have "consistent (run es initial_config)"
      and f: "form_up_to_date (run es initial_config)"
      by (simp_all add: submits_up_to_date_snoc reachable_consistent)
    with p have "isLoading (app (run es initial_config))"
      by (simp add: consistent_def)
    with f have "form_isLoading (run es initial_config)"
      by (simp add: form_up_to_date_def)
    with a have "step (Submit input) (run es initial_config) = run es initial_config"
      by blast
    then show ?thesis by (simp add: run_append)
  qed
  with a show ?thesis by blast
qed

text \<open>
  The witness: a whitespace-only input (space, ideographic space, line feed) in the
  initial configuration, and the input "x" after the search for "ESG" has started and
  the form has been rendered again.
\<close>

theorem blank_or_form_loading_submit_is_noop_witness:
  "trim [0x0020, 0x3000, 0x000A] = []
   \<and> step (Submit [0x0020, 0x3000, 0x000A]) initial_config = initial_config
   \<and> submits_up_to_date ([Submit [0x0045, 0x0053, 0x0047], Render] @ [Submit [0x0078]])
        initial_config
   \<and> pending (run [Submit [0x0045, 0x0053, 0x0047], Render] initial_config) \<noteq> []
   \<and> run ([Submit [0x0045, 0x0053, 0x0047], Render] @ [Submit [0x0078]]) initial_config
       = run [Submit [0x0045, 0x0053, 0x0047], Render] initial_config"
proof -
  let ?es = "[Submit [0x0045, 0x0053, 0x0047], Render]"
  have t: "trim [0x0020, 0x3000, 0x000A] = []"
    by (simp add: trim_def trimStart_def trimEnd_def isWhiteSpace_def)
  have s: "handleSubmit [0x0045, 0x0053, 0x0047] False = Some [0x0045, 0x0053, 0x0047]"
    by (simp add: handleSubmit_def truthy_def trim_def trimStart_def trimEnd_def
          isWhiteSpace_def)
  have u: "submits_up_to_date (?es @ [Submit [0x0078]]) initial_config"
    by (simp add: s form_up_to_date_def initial_config_def initial_state_def
          handleSearch_start_def)
  have p: "pending (run ?es initial_config) \<noteq> []"
    by (simp add: s initial_config_def initial_state_def)
  from blank_or_form_loading_submit_is_noop
         [of "[0x0020, 0x3000, 0x000A]" initial_config ?es] t
  have one: "step (Submit [0x0020, 0x3000, 0x000A]) initial_config = initial_config"
    by blast
  from blank_or_form_loading_submit_is_noop [of "[0x0078]" initial_config ?es] u p
  have two: "run (?es @ [Submit [0x0078]]) initial_config = run ?es initial_config"
    by blast
  from t one u p two show ?thesis by blast
qed

text \<open>
  The claim as first stated, for every submission made while a request is in flight,
  fails when the form has not been rendered since that request started: the search for
  "ESG" is pending, the input "x" is submitted, and a second Provider call is made.
\<close>

theorem submit_before_render_counterexample:
  "pending (run [Submit [0x0045, 0x0053, 0x0047]] initial_config) \<noteq> []
   \<and> step (Submit [0x0078]) (run [Submit [0x0045, 0x0053, 0x0047]] initial_config)
       \<noteq> run [Submit [0x0045, 0x0053, 0x0047]] initial_config
   \<and> pending (step (Submit [0x0078]) (run [Submit [0x0045, 0x0053, 0x0047]] initial_config))
       = [[0x0045, 0x0053, 0x0047], [0x0078]]"
proof -
  have s: "handleSubmit [0x0045, 0x0053, 0x0047] False = Some [0x0045, 0x0053, 0x0047]"
    by (simp add: handleSubmit_def truthy_def trim_def trimStart_def trimEnd_def
          isWhiteSpace_def)
  have x: "handleSubmit [0x0078] False = Some [0x0078]"
    by (simp add: handleSubmit_def truthy_def trim_def trimStart_def trimEnd_def
          isWhiteSpace_def)
  have r: "run [Submit [0x0045, 0x0053, 0x0047]] initial_config
             = \<lparr>app = handleSearch_start [0x0045, 0x0053, 0x0047] initial_state,
                pending = [[0x0045, 0x0053, 0x0047]], form_isLoading = False\<rparr>"
    by (simp add: s initial_config_def)
  have p: "pending (step (Submit [0x0078]) (run [Submit [0x0045, 0x0053, 0x0047]] initial_config))
             = [[0x0045, 0x0053, 0x0047], [0x0078]]"
    unfolding r by (simp add: x)
  have q: "pending (run [Submit [0x0045, 0x0053, 0x0047]] initial_config)
             = [[0x0045, 0x0053, 0x0047]]"
    unfolding r by simp
  from p q have "step (Submit [0x0078]) (run [Submit [0x0045, 0x0053, 0x0047]] initial_config)
                   \<noteq> run [Submit [0x0045, 0x0053, 0x0047]] initial_config"
    by auto
  with p q show ?thesis by simp
qed

text \<open>
  Claim C8, as amended. When the Provider's promise is rejected, \<open>handleSearch\<close> ends
  with loading off, no definition, and as the error the message of the thrown value
  when it is an \<open>Error\<close>, the fallback of line 121 otherwise. Whenever that string is
  not empty, \<open>renderContent\<close> shows it in the error panel; this is so for every thrown
  value that is not an \<open>Error\<close>.
\<close>

theorem rejection_ends_in_error_when_message_nonempty:
  "handleSearch (\<lambda>_. Rejected e) term s
     = \<lparr>searchedTerm = Some term, definition' = None, isLoading = False,
        error = Some (case e of ErrorInstance message \<Rightarrow> message | _ \<Rightarrow> GENERIC_FALLBACK)\<rparr>
   \<and> ((case e of ErrorInstance message \<Rightarrow> message | _ \<Rightarrow> GENERIC_FALLBACK) \<noteq> [] \<longrightarrow>
        renderContent (handleSearch (\<lambda>_. Rejected e) term s)
          = ErrorDisplay (case e of ErrorInstance message \<Rightarrow> message | _ \<Rightarrow> GENERIC_FALLBACK))
   \<and> ((\<forall>message. e \<noteq> ErrorInstance message) \<longrightarrow>
        renderContent (handleSearch (\<lambda>_. Rejected e) term s) = ErrorDisplay GENERIC_FALLBACK)"
proof -
  let ?m = "case e of ErrorInstance message \<Rightarrow> message | _ \<Rightarrow> GENERIC_FALLBACK"
  have st: "handleSearch (\<lambda>_. Rejected e) term s
              = \<lparr>searchedTerm = Some term, definition' = None, isLoading = False,
                 error = Some ?m\<rparr>"
    by (simp add: handleSearch_def settle_rejected start_eq)
  have rc: "renderContent (handleSearch (\<lambda>_. Rejected e) term s) = ErrorDisplay ?m"
    if "?m \<noteq> []"
    using that by (simp add: st renderContent_def truthy_opt_def truthy_def)
  have ne: "GENERIC_FALLBACK \<noteq> []" by (simp add: GENERIC_FALLBACK_def)
  have "renderContent (handleSearch (\<lambda>_. Rejected e) term s) = ErrorDisplay GENERIC_FALLBACK"
    if "\<forall>message. e \<noteq> ErrorInstance message"
  proof -
    from that have "?m = GENERIC_FALLBACK" by (cases e) simp_all
    with rc ne show ?thesis by simp
  qed
  with st rc show ?thesis by blast
qed

text \<open>
  The witness: the search for "ESG" rejected with an \<open>Error\<close> whose message is
  "network down" ends in the error panel with "network down"; rejected with the string
  of line 16 of the Provider, which is not an \<open>Error\<close>, it ends in the error panel
  with the fallback.
\<close>

theorem rejection_ends_in_error_when_message_nonempty_witness:
  "[0x006E, 0x0065, 0x0074, 0x0077, 0x006F, 0x0072, 0x006B, 0x0020,
    0x0064, 0x006F, 0x0077, 0x006E] \<noteq> ([] :: jsstring)
   \<and> renderContent
        (handleSearch
           (\<lambda>_. Rejected (ErrorInstance [0x006E, 0x0065, 0x0074, 0x0077, 0x006F, 0x0072,
                                          0x006B, 0x0020, 0x0064, 0x006F, 0x0077, 0x006E]))
           [0x0045, 0x0053, 0x0047] initial_state)
       = ErrorDisplay [0x006E, 0x0065, 0x0074, 0x0077, 0x006F, 0x0072, 0x006B, 0x0020,
                       0x0064, 0x006F, 0x0077, 0x006E]
   \<and> (\<forall>message. StringValue API_KEY_MISSING_MESSAGE \<noteq> ErrorInstance message)
   \<and> renderContent
        (handleSearch (\<lambda>_. Rejected (StringValue API_KEY_MISSING_MESSAGE))
           [0x0045, 0x0053, 0x0047] initial_state)
       = ErrorDisplay GENERIC_FALLBACK"
proof -
  let ?m = "[0x006E, 0x0065, 0x0074, 0x0077, 0x006F, 0x0072, 0x006B, 0x0020,
             0x0064, 0x006F, 0x0077, 0x006E] :: jsstring"
  have ne: "?m \<noteq> []" by simp
  from rejection_ends_in_error_when_message_nonempty
         [of "ErrorInstance ?m" "[0x0045, 0x0053, 0x0047]" initial_state,
          unfolded js_value.case]
       ne
  have one: "renderContent
               (handleSearch (\<lambda>_. Rejected (ErrorInstance ?m)) [0x0045, 0x0053, 0x0047]
                  initial_state)
             = ErrorDisplay ?m"
    by blast
  have ns: "\<forall>message. StringValue API_KEY_MISSING_MESSAGE \<noteq> ErrorInstance message"
    by simp
  from rejection_ends_in_error_when_message_nonempty
         [of "StringValue API_KEY_MISSING_MESSAGE" "[0x0045, 0x0053, 0x0047]" initial_state]
       ns
  have two: "renderContent
               (handleSearch (\<lambda>_. Rejected (StringValue API_KEY_MISSING_MESSAGE))
                  [0x0045, 0x0053, 0x0047] initial_state)
             = ErrorDisplay GENERIC_FALLBACK"
    by blast
  from ne one ns two show ?thesis by blast
qed

text \<open>
  The claim as first stated, for every rejection, fails for an \<open>Error\<close> whose message
  is the empty string: the search for "ESG" then ends in the placeholder, with no error
  panel, neither for the empty message nor for the fallback.
\<close>

theorem rejection_empty_message_counterexample:
  "renderContent
     (app (run [Submit [0x0045, 0x0053, 0x0047], Settle 0 (Rejected (ErrorInstance []))]
             initial_config))
     = InitialState
   \<and> renderContent
       (app (run [Submit [0x0045, 0x0053, 0x0047], Settle 0 (Rejected (ErrorInstance []))]
               initial_config))
     \<noteq> ErrorDisplay []
   \<and> renderContent
       (app (run [Submit [0x0045, 0x0053, 0x0047], Settle 0 (Rejected (ErrorInstance []))]
               initial_config))
     \<noteq> ErrorDisplay GENERIC_FALLBACK"
  by (simp add: handleSubmit_def truthy_def trim_def trimStart_def trimEnd_def isWhiteSpace_def
        initial_config_def initial_state_def handleSearch_start_def handleSearch_settle_def
        renderContent_def truthy_opt_def)

text \<open>
  Claim C9, as amended. After any sequence of submit events, renders and settled
  Provider calls, from the initial configuration, \<open>renderContent\<close> selects one view
  and that view agrees with the state: the loading indicator only while loading, the
  error panel only for the error held, the result panel only for the term and
  definition held, the placeholder only when not loading. When the sequence keeps the
  form up to date at its submit events, the state moreover never holds an error and a
  definition together, holds nothing while loading, holds no definition under the
  error panel and no error under the result panel.
\<close>

theorem one_view_and_one_payload_when_form_up_to_date:
  "(case renderContent (app (run es initial_config)) of
      LoadingIndicator \<Rightarrow> isLoading (app (run es initial_config))
    | ErrorDisplay message \<Rightarrow>
        \<not> isLoading (app (run es initial_config))
        \<and> error (app (run es initial_config)) = Some message
    | ResultDisplay term body \<Rightarrow>
        \<not> isLoading (app (run es initial_config))
        \<and> searchedTerm (app (run es initial_config)) = Some term
        \<and> definition' (app (run es initial_config)) = Some body
    | InitialState \<Rightarrow> \<not> isLoading (app (run es initial_config)))
   \<and> (submits_up_to_date es initial_config \<longrightarrow>
        (error (app (run es initial_config)) = None
           \<or> definition' (app (run es initial_config)) = None)
        \<and> (case renderContent (app (run es initial_config)) of
             LoadingIndicator \<Rightarrow>
               isLoading (app (run es initial_config))
               \<and> error (app (run es initial_config)) = None
               \<and> definition' (app (run es initial_config)) = None
           | ErrorDisplay message \<Rightarrow>
               \<not> isLoading (app (run es initial_config))
               \<and> error (app (run es initial_config)) = Some message
               \<and> definition' (app (run es initial_config)) = None
           | ResultDisplay term body \<Rightarrow>
               \<not> isLoading (app (run es initial_config))
               \<and> searchedTerm (app (run es initial_config)) = Some term
               \<and> definition' (app (run es initial_config)) = Some body
               \<and> error (app (run es initial_config)) = None
           | InitialState \<Rightarrow> \<not> isLoading (app (run es initial_config))))"
proof -
  let ?s = "app (run es initial_config)"
  have weak: "case renderContent ?s of
          LoadingIndicator \<Rightarrow> isLoading ?s
        | ErrorDisplay message \<Rightarrow> \<not> isLoading ?s \<and> error ?s = Some message
        | ResultDisplay term body \<Rightarrow>
            \<not> isLoading ?s \<and> searchedTerm ?s = Some term \<and> definition' ?s = Some body
        | InitialState \<Rightarrow> \<not> isLoading ?s"
    by (auto simp: renderContent_def truthy_opt_def split: option.splits if_splits)
  have strong: "(error ?s = None \<or> definition' ?s = None)
        \<and> (case renderContent ?s of
             LoadingIndicator \<Rightarrow> isLoading ?s \<and> error ?s = None \<and> definition' ?s = None
           | ErrorDisplay message \<Rightarrow>
               \<not> isLoading ?s \<and> error ?s = Some message \<and> definition' ?s = None
           | ResultDisplay term body \<Rightarrow>
               \<not> isLoading ?s \<and> searchedTerm ?s = Some term \<and> definition' ?s = Some body
               \<and> error ?s = None
           | InitialState \<Rightarrow> \<not> isLoading ?s)"
    if u: "submits_up_to_date es initial_config"
  proof -
    have c: "if isLoading ?s then error ?s = None \<and> definition' ?s = None
             else error ?s = None \<or> definition' ?s = None"
      using reachable_consistent [OF u] by (simp add: consistent_def)
    then have both: "error ?s = None \<or> definition' ?s = None"
      by (simp split: if_splits)
    have "case renderContent ?s of
            LoadingIndicator \<Rightarrow> isLoading ?s \<and> error ?s = None \<and> definition' ?s = None
          | ErrorDisplay message \<Rightarrow>
              \<not> isLoading ?s \<and> error ?s = Some message \<and> definition' ?s = None
          | ResultDisplay term body \<Rightarrow>
              \<not> isLoading ?s \<and> searchedTerm ?s = Some term \<and> definition' ?s = Some body
              \<and> error ?s = None
          | InitialState \<Rightarrow> \<not> isLoading ?s"
      using c by (auto simp: renderContent_def truthy_opt_def split: option.splits if_splits)
    with both show ?thesis by (rule conjI)
  qed
  from weak strong show ?thesis by blast
qed

text \<open>
  The witness: a search for "ESG" that resolves with "**ESG**", then a search for "x"
  that is rejected with a string, with a render after each change of the state; the
  error panel is all that is left.
\<close>

theorem one_view_and_one_payload_when_form_up_to_date_witness:
  "submits_up_to_date
     [Submit [0x0045, 0x0053, 0x0047], Render,
      Settle 0 (Resolved [0x002A, 0x002A, 0x0045, 0x0053, 0x0047, 0x002A, 0x002A]), Render,
      Submit [0x0078], Render,
      Settle 0 (Rejected (StringValue [0x006E, 0x006F])), Render] initial_config
   \<and> app (run [Submit [0x0045, 0x0053, 0x0047], Render,
             Settle 0 (Resolved [0x002A, 0x002A, 0x0045, 0x0053, 0x0047, 0x002A, 0x002A]), Render,
             Submit [0x0078], Render,
             Settle 0 (Rejected (StringValue [0x006E, 0x006F])), Render] initial_config)
     = \<lparr>searchedTerm = Some [0x0078], definition' = None, isLoading = False,
        error = Some GENERIC_FALLBACK\<rparr>
   \<and> (error (app (run [Submit [0x0045, 0x0053, 0x0047], Render,
             Settle 0 (Resolved [0x002A, 0x002A, 0x0045, 0x0053, 0x0047, 0x002A, 0x002A]), Render,
             Submit [0x0078], Render,
             Settle 0 (Rejected (StringValue [0x006E, 0x006F])), Render] initial_config)) = None
      \<or> definition' (app (run [Submit [0x0045, 0x0053, 0x0047], Render,
             Settle 0 (Resolved [0x002A, 0x002A, 0x0045, 0x0053, 0x0047, 0x002A, 0x002A]), Render,
             Submit [0x0078], Render,
             Settle 0 (Rejected (StringValue [0x006E, 0x006F])), Render] initial_config)) = None)"
proof -
  let ?es = "[Submit [0x0045, 0x0053, 0x0047], Render,
             Settle 0 (Resolved [0x002A, 0x002A, 0x0045, 0x0053, 0x0047, 0x002A, 0x002A]), Render,
             Submit [0x0078], Render,
             Settle 0 (Rejected (StringValue [0x006E, 0x006F])), Render]"
  have s: "handleSubmit [0x0045, 0x0053, 0x0047] False = Some [0x0045, 0x0053, 0x0047]"
    by (simp add: handleSubmit_def truthy_def trim_def trimStart_def trimEnd_def
          isWhiteSpace_def)
  have x: "handleSubmit [0x0078] False = Some [0x0078]"
    by (simp add: handleSubmit_def truthy_def trim_def trimStart_def trimEnd_def
          isWhiteSpace_def)
  have u: "submits_up_to_date ?es initial_config"
    by (simp add: s x form_up_to_date_def initial_config_def initial_state_def
          handleSearch_start_def handleSearch_settle_def
          startsWith_def API_ERROR_PREFIX_def UNKNOWN_ERROR_PREFIX_def)
  have v: "app (run ?es initial_config)
             = \<lparr>searchedTerm = Some [0x0078], definition' = None, isLoading = False,
                error = Some GENERIC_FALLBACK\<rparr>"
    by (simp add: s x initial_config_def initial_state_def
          handleSearch_start_def handleSearch_settle_def
          startsWith_def API_ERROR_PREFIX_def UNKNOWN_ERROR_PREFIX_def)
  have d: "error (app (run ?es initial_config)) = None
             \<or> definition' (app (run ?es initial_config)) = None"
    by (rule one_view_and_one_payload_when_form_up_to_date
               [of ?es, THEN conjunct2, THEN mp, OF u, THEN conjunct1])
  from u v d show ?thesis by blast
qed

text \<open>
  The claim as first stated, for every sequence of submissions and settled calls, fails
  when a second submission is made before the form is rendered again: the searches for
  "ESG" and "x" are both pending, the first resolves with "d" and the second is
  rejected with a string, and the state then holds a definition and an error together.
\<close>

theorem overlapping_calls_counterexample:
  "definition'
     (app (run [Submit [0x0045, 0x0053, 0x0047], Submit [0x0078],
                Settle 0 (Resolved [0x0064]),
                Settle 0 (Rejected (StringValue [0x006E, 0x006F]))] initial_config))
     = Some [0x0064]
   \<and> error
     (app (run [Submit [0x0045, 0x0053, 0x0047], Submit [0x0078],
                Settle 0 (Resolved [0x0064]),
                Settle 0 (Rejected (StringValue [0x006E, 0x006F]))] initial_config))
     = Some GENERIC_FALLBACK
   \<and> \<not> (error
     (app (run [Submit [0x0045, 0x0053, 0x0047], Submit [0x0078],
                Settle 0 (Resolved [0x0064]),
                Settle 0 (Rejected (StringValue [0x006E, 0x006F]))] initial_config))
     = None
     \<or> definition'
     (app (run [Submit [0x0045, 0x0053, 0x0047], Submit [0x0078],
                Settle 0 (Resolved [0x0064]),
                Settle 0 (Rejected (StringValue [0x006E, 0x006F]))] initial_config))
     = None)"
proof -
  have s: "handleSubmit [0x0045, 0x0053, 0x0047] False = Some [0x0045, 0x0053, 0x0047]"
    by (simp add: handleSubmit_def truthy_def trim_def trimStart_def trimEnd_def
          isWhiteSpace_def)
  have x: "handleSubmit [0x0078] False = Some [0x0078]"
    by (simp add: handleSubmit_def truthy_def trim_def trimStart_def trimEnd_def
          isWhiteSpace_def)
  have n: "\<not> startsWith [0x0064] API_ERROR_PREFIX" "\<not> startsWith [0x0064] UNKNOWN_ERROR_PREFIX"
    by (simp_all add: startsWith_def API_ERROR_PREFIX_def UNKNOWN_ERROR_PREFIX_def)
  have v: "app (run [Submit [0x0045, 0x0053, 0x0047], Submit [0x0078],
                Settle 0 (Resolved [0x0064]),
                Settle 0 (Rejected (StringValue [0x006E, 0x006F]))] initial_config)
             = \<lparr>searchedTerm = Some [0x0078], definition' = Some [0x0064], isLoading = False,
                error = Some GENERIC_FALLBACK\<rparr>"
    by (simp add: s x n initial_config_def initial_state_def
          step_Submit_explicit step_Settle_explicit
          handleSearch_start_def handleSearch_settle_def del: step.simps)
  show ?thesis unfolding v by simp
qed

text \<open>
  Claim C10. The empty string starts with neither literal of line 115. When the
  Provider resolves with it, \<open>handleSearch\<close> stores it as the definition, and
  \<open>renderContent\<close> returns the placeholder, not the result panel. With a key
  configured, this is what happens when the remote service returns an empty text.
\<close>

theorem empty_definition_renders_placeholder:
  "\<not> startsWith [] API_ERROR_PREFIX \<and> \<not> startsWith [] UNKNOWN_ERROR_PREFIX
   \<and> handleSearch (\<lambda>_. Resolved []) term s
       = \<lparr>searchedTerm = Some term, definition' = Some [], isLoading = False, error = None\<rparr>
   \<and> renderContent (handleSearch (\<lambda>_. Resolved []) term s) = InitialState
   \<and> (truthy_opt key \<longrightarrow>
        renderContent
          (handleSearch (\<lambda>t. fst (getFinancialTermDefinition key (\<lambda>_. Returns []) t)) term s)
        = InitialState)"
proof -
  have a: "\<not> startsWith [] API_ERROR_PREFIX" "\<not> startsWith [] UNKNOWN_ERROR_PREFIX"
    by (simp_all add: startsWith_def API_ERROR_PREFIX_def UNKNOWN_ERROR_PREFIX_def)
  have st: "handleSearch (\<lambda>_. Resolved []) term s
       = \<lparr>searchedTerm = Some term, definition' = Some [], isLoading = False, error = None\<rparr>"
    using a by (simp add: handleSearch_def settle_resolved_definition start_eq)
  have rc: "renderContent (handleSearch (\<lambda>_. Resolved []) term s) = InitialState"
    by (simp add: st renderContent_def truthy_opt_def truthy_def)
  have "renderContent
          (handleSearch (\<lambda>t. fst (getFinancialTermDefinition key (\<lambda>_. Returns []) t)) term s)
        = InitialState" if "truthy_opt key"
    using that rc by (simp add: provider_returns)
  with a st rc show ?thesis by blast
qed

text \<open>The witness: the key "k" and the term "ESG", from the initial state.\<close>

theorem empty_definition_renders_placeholder_witness:
  "truthy_opt (Some [0x006B])
   \<and> renderContent
        (handleSearch (\<lambda>t. fst (getFinancialTermDefinition (Some [0x006B]) (\<lambda>_. Returns []) t))
           [0x0045, 0x0053, 0x0047] initial_state)
       = InitialState"
proof -
  have k: "truthy_opt (Some [0x006B])"
    by (simp add: truthy_opt_def truthy_def)
  from empty_definition_renders_placeholder [of "[0x0045, 0x0053, 0x0047]" initial_state "Some [0x006B]"] k
  show ?thesis by blast
qed

end
